theory Spec2Isabelle
  imports Main
begin

section \<open>The messaging session of package rabbitmq\<close>

text \<open>
  A shallow embedding of \<^verbatim>\<open>rabbitmq/session.go\<close> and of the Connection wrapper that
  follows it in the same source file. Go pointers that may be nil are options, Go
  \<^verbatim>\<open>error\<close> results are \<open>error option\<close> (\<open>None\<close> is nil), a run-time panic is the
  value \<open>Panics\<close>, and every call that leaves the package (the amqp client library,
  the protobuf marshaller, the logger, a subscriber's handler) is explicit: the code
  threads a world holding the calls made so far, in order, and the state of the
  broker behind the client library.
\<close>

subsection \<open>Values\<close>

type_synonym conn_handle = nat
type_synonym chan_handle = nat
type_synonym bytes = "nat list"

datatype role = Consumer | Producer

text \<open>
  Modelled from the spec: the type \<^verbatim>\<open>Declaration\<close> and its constructors
  \<^verbatim>\<open>AutoExchange\<close>, \<^verbatim>\<open>AutoQueue\<close> and \<^verbatim>\<open>AutoBinding\<close> are used by session.go but
  declared in a file that is not among the sources. The spec describes a Declaration
  as a unit of topology setup (declare exchange, declare queue, bind queue to exchange
  on a routing key) that is a function from a channel handle to a success or failure
  result. A Declaration value is the constructor with the arguments session.go gives
  it; what it does to a channel is the field \<open>run_declaration\<close> of the library below.
\<close>

datatype Declaration =
    AutoExchange string
  | AutoQueue string
  | AutoBinding string string string

text \<open>
  The errors session.go builds, one constructor per \<^verbatim>\<open>fmt.Errorf\<close> or
  \<^verbatim>\<open>errors.Wrap\<close>, each keeping the arguments that are formatted into the message:
  \<^item> \<open>ConsumerQueueDefined q\<close>: "a consumer queue with name 'q' has already been defined";
  \<^item> \<open>PublisherRegistered\<close>: "a publisher with that routingKey is already registered";
  \<^item> \<open>NoPublisher k\<close>: "no publisher with routingKey k registered, cannot resolve exchange";
  \<^item> \<open>CreateConnectionFailed e\<close>: "failed to create amqp connection: e";
  \<^item> \<open>UnableToConnect e\<close>: e wrapped with "unable to connect to amqp server";
  \<^item> \<open>DeclareFailed r e\<close>: "failed to declare for consumer: e" or
    "failed to declare for producer: e", by the role;
  \<^item> \<open>LibraryError m\<close>: an error of a collaborator, by its message.
\<close>

datatype error =
    ConsumerQueueDefined string
  | PublisherRegistered
  | NoPublisher string
  | CreateConnectionFailed error
  | UnableToConnect error
  | DeclareFailed role error
  | LibraryError string

datatype panic = NilPointerDereference | InterfaceConversion | LibraryPanic

datatype 'a outcome = Returns 'a | Panics panic

text \<open>
  The \<^verbatim>\<open>event interface{}\<close> argument of Publish: a value that implements
  \<^verbatim>\<open>proto.Message\<close> (given by its content), the nil interface, or any other value.
\<close>

datatype go_value = ProtoMessage string | NilValue | OtherValue string

record Publishing =
  Headers :: "(string \<times> string) list"
  ContentType :: string
  DeliveryMode :: nat
  Priority :: nat
  Body :: bytes

definition Transient :: nat where
  "Transient = 1"

record Delivery =
  RoutingKey :: string
  DeliveryTag :: nat
  Payload :: bytes

subsection \<open>The world outside the package\<close>

datatype level = Info | Warn | Error

text \<open>
  One constructor per call site that leaves the package. \<open>Applied\<close> is the call
  \<^verbatim>\<open>declare(ch)\<close> of a Declaration, with the role whose list it came from, the
  channel it was given and the error it returned.
\<close>

datatype call =
    Log level string
  | Dialled string
  | NotifyClose conn_handle
  | Closed "conn_handle option"
  | OpenChannel "conn_handle option"
  | Applied role Declaration "chan_handle option" "error option"
  | Published chan_handle string string bool bool Publishing
  | Qos chan_handle nat nat bool
  | ConsumeFrom chan_handle string
  | Nack Delivery bool bool
  | Sleep nat
  | GoMonitorConnection

record 'b world =
  calls :: "call list"
  broker :: 'b

text \<open>
  The collaborators, as functions on the broker state \<open>'b\<close>. A method of the client
  library whose receiver is the Connection's transport handle takes that handle as an
  option, because session.go calls it without checking the handle for nil; what the
  library does on a nil receiver is the library's.
\<close>

record 'b amqp =
  Dial :: "string \<Rightarrow> 'b \<Rightarrow> (error + conn_handle) \<times> 'b"
  ConnClose :: "conn_handle option \<Rightarrow> 'b \<Rightarrow> error option outcome \<times> 'b"
  ConnChannel :: "conn_handle option \<Rightarrow> 'b \<Rightarrow> (error + chan_handle) outcome \<times> 'b"
  run_declaration :: "Declaration \<Rightarrow> chan_handle option \<Rightarrow> 'b \<Rightarrow> error option \<times> 'b"
  Marshal :: "string \<Rightarrow> error + bytes"
  ChanPublish :: "chan_handle \<Rightarrow> string \<Rightarrow> string \<Rightarrow> bool \<Rightarrow> bool \<Rightarrow> Publishing \<Rightarrow> 'b \<Rightarrow> error option \<times> 'b"
  ChanQos :: "chan_handle \<Rightarrow> nat \<Rightarrow> nat \<Rightarrow> bool \<Rightarrow> 'b \<Rightarrow> error option \<times> 'b"
  ChanConsume :: "chan_handle \<Rightarrow> string \<Rightarrow> 'b \<Rightarrow> (error + Delivery list) \<times> 'b"
  DeliveryNack :: "Delivery \<Rightarrow> bool \<Rightarrow> bool \<Rightarrow> 'b \<Rightarrow> error option \<times> 'b"

definition emit :: "call \<Rightarrow> 'b world \<Rightarrow> 'b world" where
  "emit c w = w\<lparr>calls := calls w @ [c]\<rparr>"

definition io :: "('r \<Rightarrow> call) \<Rightarrow> ('b \<Rightarrow> 'r \<times> 'b) \<Rightarrow> 'b world \<Rightarrow> 'r \<times> 'b world" where
  "io mk f w = (case f (broker w) of (r, b) \<Rightarrow> (r, \<lparr>calls = calls w @ [mk r], broker = b\<rparr>))"

subsection \<open>Connection\<close>

text \<open>
  The struct Connection. \<open>conn\<close> is the transport handle (\<open>None\<close> is nil),
  \<open>cancelled\<close> says whether the lifecycle context \<^verbatim>\<open>ctx\<close> is done (\<^verbatim>\<open>cancel()\<close>
  sets it). The mutex has no field: each method that holds it is one function here.
  The logger is the world's. The notification channel is renewed by
  \<open>changeConnection\<close> and seen as the call \<open>NotifyClose\<close>.
\<close>

record Connection =
  addr :: string
  conn :: "conn_handle option"
  connected :: bool
  cancelled :: bool

definition NewConnection :: "string \<Rightarrow> Connection" where
  "NewConnection a = \<lparr>addr = a, conn = None, connected = False, cancelled = False\<rparr>"

definition IsConnected :: "Connection \<Rightarrow> bool" where
  "IsConnected c = connected c"

definition setConnected :: "bool \<Rightarrow> Connection \<Rightarrow> Connection" where
  "setConnected status c = c\<lparr>connected := status\<rparr>"

definition cancel :: "Connection \<Rightarrow> Connection" where
  "cancel c = c\<lparr>cancelled := True\<rparr>"

definition changeConnection :: "conn_handle \<Rightarrow> Connection \<Rightarrow> 'b world \<Rightarrow> Connection \<times> 'b world" where
  "changeConnection connection c w = (c\<lparr>conn := Some connection\<rparr>, emit (NotifyClose connection) w)"

definition Channel :: "'b amqp \<Rightarrow> Connection \<Rightarrow> 'b world \<Rightarrow> (error + chan_handle) outcome \<times> 'b world" where
  "Channel L c w = io (\<lambda>_. OpenChannel (conn c)) (ConnChannel L (conn c)) w"

text \<open>
  \<^verbatim>\<open>dial\<close> in two halves, cut where it blocks in \<^verbatim>\<open>amqp.Dial\<close>: \<open>dial_begin\<close> is
  the statement before the call, \<open>dial_finish\<close> the call's return and what follows.
\<close>

definition dial_begin :: "Connection \<Rightarrow> Connection" where
  "dial_begin c = setConnected False c"

definition dial_finish :: "'b amqp \<Rightarrow> Connection \<Rightarrow> 'b world \<Rightarrow> (error + conn_handle) \<times> Connection \<times> 'b world" where
  "dial_finish L c w =
     (case io (\<lambda>_. Dialled (addr c)) (Dial L (addr c)) w of
        (Inl err, w1) \<Rightarrow> (Inl err, c, w1)
      | (Inr h, w1) \<Rightarrow>
          (case changeConnection h c w1 of
             (c1, w2) \<Rightarrow> (Inr h, setConnected True c1, w2)))"

definition dial :: "'b amqp \<Rightarrow> Connection \<Rightarrow> 'b world \<Rightarrow> (error + conn_handle) \<times> Connection \<times> 'b world" where
  "dial L c w = dial_finish L (dial_begin c) w"

text \<open>
  \<^verbatim>\<open>c.conn, err = c.dial()\<close> assigns \<^verbatim>\<open>c.conn\<close> on both paths: nil when the dial
  failed. \<open>Connect_resume\<close> is Connect from the return of \<^verbatim>\<open>amqp.Dial\<close> on.
\<close>

definition Connect_resume :: "'b amqp \<Rightarrow> Connection \<Rightarrow> 'b world \<Rightarrow> error option \<times> Connection \<times> 'b world" where
  "Connect_resume L c w =
     (case dial_finish L c w of
        (Inl err, c1, w1) \<Rightarrow> (Some (UnableToConnect err), c1\<lparr>conn := None\<rparr>, w1)
      | (Inr h, c1, w1) \<Rightarrow> (None, c1\<lparr>conn := Some h\<rparr>, emit GoMonitorConnection w1))"

definition Connect :: "'b amqp \<Rightarrow> Connection \<Rightarrow> 'b world \<Rightarrow> error option \<times> Connection \<times> 'b world" where
  "Connect L c w = Connect_resume L (dial_begin c) w"

text \<open>
  \<^verbatim>\<open>Connection.Shutdown\<close>, statement by statement: \<open>Shutdown_close\<close> is the
  \<^verbatim>\<open>if c.IsConnected() { ... }\<close> block.
\<close>

definition Shutdown_close :: "'b amqp \<Rightarrow> Connection \<Rightarrow> 'b world \<Rightarrow> unit outcome \<times> Connection \<times> 'b world" where
  "Shutdown_close L c w =
     (if IsConnected c then
        (case io (\<lambda>_. Closed (conn c)) (ConnClose L (conn c)) w of
           (Panics p, w1) \<Rightarrow> (Panics p, c, w1)
         | (Returns (Some err), w1) \<Rightarrow>
             (Returns (), c, emit (Log Warn ''error while closing amqp connection'') w1)
         | (Returns None, w1) \<Rightarrow> (Returns (), c, w1))
      else (Returns (), c, w))"

definition Connection_Shutdown :: "'b amqp \<Rightarrow> Connection \<Rightarrow> 'b world \<Rightarrow> unit outcome \<times> Connection \<times> 'b world" where
  "Connection_Shutdown L c w = Shutdown_close L (cancel (setConnected False c)) w"

subsection \<open>Session: registration and publishing\<close>

text \<open>
  Modelled from the spec: the type \<^verbatim>\<open>Subscriber\<close> is declared outside the sources.
  The spec has a handler invoked synchronously with the raw delivery, acknowledgment
  being the handler's responsibility: a handler is a function of the delivery that
  changes the world and returns.
\<close>

type_synonym 'b Subscriber = "Delivery \<Rightarrow> 'b world \<Rightarrow> 'b world"

text \<open>
  The struct Session. \<open>session_addr\<close> is the field \<^verbatim>\<open>addr\<close> and
  \<open>session_cancelled\<close> says whether the Session's \<^verbatim>\<open>ctx\<close> is done (the names
  \<open>addr\<close> and \<open>cancelled\<close> are the Connection's). The two Connections are owned by
  the Session alone, so they are held by value; \<open>None\<close> is the nil pointer.
\<close>

record 'b Session =
  session_addr :: string
  session_cancelled :: bool
  subscribers :: "string \<rightharpoonup> 'b Subscriber"
  publishers :: "string \<rightharpoonup> string"
  consumerQueue :: string
  consumeConn :: "Connection option"
  produceConn :: "Connection option"
  consumerDecls :: "Declaration list"
  producerDecls :: "Declaration list"

definition NewSession :: "string \<Rightarrow> 'b Session" where
  "NewSession a =
     \<lparr>session_addr = a, session_cancelled = False, subscribers = Map.empty,
      publishers = Map.empty, consumerQueue = '''', consumeConn = None, produceConn = None,
      consumerDecls = [], producerDecls = []\<rparr>"

definition AddSubscription ::
  "string \<Rightarrow> string \<Rightarrow> string \<Rightarrow> 'b Subscriber \<Rightarrow> 'b Session \<Rightarrow> 'b world
     \<Rightarrow> error option \<times> 'b Session \<times> 'b world" where
  "AddSubscription exchangeName queueName routingKey handler s w =
     (if consumerQueue s \<noteq> '''' \<and> consumerQueue s \<noteq> queueName
      then (Some (ConsumerQueueDefined (consumerQueue s)), s, w)
      else
        (None,
         s\<lparr>consumerQueue := queueName,
           consumerDecls := consumerDecls s @
             [AutoExchange exchangeName, AutoQueue queueName,
              AutoBinding routingKey queueName exchangeName],
           subscribers := (subscribers s)(routingKey \<mapsto> handler)\<rparr>,
         emit (Log Info ''added subscription'') w))"

definition AddPublisher :: "string \<Rightarrow> string \<Rightarrow> 'b Session \<Rightarrow> error option \<times> 'b Session" where
  "AddPublisher exchangeName routingKey s =
     (case publishers s routingKey of
        Some _ \<Rightarrow> (Some PublisherRegistered, s)
      | None \<Rightarrow>
          (None,
           s\<lparr>producerDecls := producerDecls s @ [AutoExchange exchangeName],
             publishers := (publishers s)(routingKey \<mapsto> exchangeName)\<rparr>))"

text \<open>
  \<^verbatim>\<open>Session.Publish\<close>. \<^verbatim>\<open>event.(proto.Message)\<close> is the one-result form of the type
  assertion, which panics when the value does not implement the interface.
  \<^verbatim>\<open>s.produceConn.Channel()\<close> on a nil \<^verbatim>\<open>produceConn\<close> enters \<^verbatim>\<open>Connection.Channel\<close>
  with a nil receiver, whose first statement reads the field \<^verbatim>\<open>c.connMutex\<close>.
\<close>

definition Publish ::
  "'b amqp \<Rightarrow> string \<Rightarrow> go_value \<Rightarrow> 'b Session \<Rightarrow> 'b world \<Rightarrow> error option outcome \<times> 'b world" where
  "Publish L routingKey event s w =
     (case publishers s routingKey of
        None \<Rightarrow> (Returns (Some (NoPublisher routingKey)), w)
      | Some exchange \<Rightarrow>
          (case event of
             ProtoMessage protobuf \<Rightarrow>
               (case Marshal L protobuf of
                  Inl err \<Rightarrow> (Returns (Some err), w)
                | Inr bodyBytes \<Rightarrow>
                    (let publishing =
                       \<lparr>Headers = [], ContentType = ''application/octet-stream'',
                        DeliveryMode = Transient, Priority = 0, Body = bodyBytes\<rparr>
                     in case produceConn s of
                          None \<Rightarrow> (Panics NilPointerDereference, w)
                        | Some c \<Rightarrow>
                            (case Channel L c w of
                               (Panics p, w1) \<Rightarrow> (Panics p, w1)
                             | (Returns (Inl err), w1) \<Rightarrow> (Returns (Some err), w1)
                             | (Returns (Inr ch), w1) \<Rightarrow>
                                 (case io (\<lambda>_. Published ch exchange routingKey False False publishing)
                                         (ChanPublish L ch exchange routingKey False False publishing) w1 of
                                    (Some err, w2) \<Rightarrow> (Returns (Some err), w2)
                                  | (None, w2) \<Rightarrow>
                                      (Returns None,
                                       emit (Log Info (''published message to exchange '' @ exchange
                                                        @ '' with routingKey '' @ routingKey)) w2)))))
           | NilValue \<Rightarrow> (Panics InterfaceConversion, w)
           | OtherValue _ \<Rightarrow> (Panics InterfaceConversion, w)))"

subsection \<open>Session: Declare\<close>

text \<open>
  \<^verbatim>\<open>ensureConnections\<close>. The new Connection is stored in the Session before
  \<^verbatim>\<open>Connect\<close> is called, so it stays there when the connect fails.
\<close>

definition ensureConnections ::
  "'b amqp \<Rightarrow> 'b Session \<Rightarrow> 'b world \<Rightarrow> error option \<times> 'b Session \<times> 'b world" where
  "ensureConnections L s w =
     (case
        (if consumerDecls s \<noteq> [] \<and> consumeConn s = None then
           (case Connect L (NewConnection (session_addr s)) w of
              (Some err, c, w1) \<Rightarrow>
                (Some (CreateConnectionFailed err), s\<lparr>consumeConn := Some c\<rparr>, w1)
            | (None, c, w1) \<Rightarrow>
                (None, s\<lparr>consumeConn := Some c\<rparr>,
                 emit (Log Info ''amqp consumer connection established'') w1))
         else (None, s, w))
      of
        (Some err, s1, w1) \<Rightarrow> (Some err, s1, w1)
      | (None, s1, w1) \<Rightarrow>
          (if producerDecls s1 \<noteq> [] \<and> produceConn s1 = None then
             (case Connect L (NewConnection (session_addr s1)) w1 of
                (Some err, c, w2) \<Rightarrow>
                  (Some (CreateConnectionFailed err), s1\<lparr>produceConn := Some c\<rparr>, w2)
              | (None, c, w2) \<Rightarrow>
                  (None, s1\<lparr>produceConn := Some c\<rparr>,
                   emit (Log Info ''amqp producer connection established'') w2))
           else (None, s1, w1)))"

text \<open>
  The loop \<^verbatim>\<open>for _, declare := range decls\<close> of Declare: each Declaration is called
  with the channel, and the first error ends the loop.
\<close>

fun replay ::
  "'b amqp \<Rightarrow> role \<Rightarrow> chan_handle option \<Rightarrow> Declaration list \<Rightarrow> 'b world \<Rightarrow> error option \<times> 'b world" where
  "replay L r ch [] w = (None, w)"
| "replay L r ch (decl # rest) w =
     (case io (Applied r decl ch) (run_declaration L decl ch) w of
        (Some err, w1) \<Rightarrow> (Some err, w1)
      | (None, w1) \<Rightarrow> replay L r ch rest w1)"

text \<open>
  One of the two blocks \<^verbatim>\<open>if len(decls) > 0 { ch, _ := connection.Channel(); ... }\<close>
  of Declare, which differ in the role only. The error of \<^verbatim>\<open>Channel()\<close> is dropped: the
  declarations are then called with the nil channel.
\<close>

definition declare_for ::
  "'b amqp \<Rightarrow> role \<Rightarrow> Connection option \<Rightarrow> Declaration list \<Rightarrow> 'b world \<Rightarrow> error option outcome \<times> 'b world" where
  "declare_for L r connection decls w =
     (if decls = [] then (Returns None, w)
      else
        (case connection of
           None \<Rightarrow> (Panics NilPointerDereference, w)
         | Some c \<Rightarrow>
             (case Channel L c w of
                (Panics p, w1) \<Rightarrow> (Panics p, w1)
              | (Returns got, w1) \<Rightarrow>
                  (case replay L r (case got of Inl _ \<Rightarrow> None | Inr ch \<Rightarrow> Some ch) decls w1 of
                     (Some err, w2) \<Rightarrow> (Returns (Some (DeclareFailed r err)), w2)
                   | (None, w2) \<Rightarrow> (Returns None, w2)))))"

definition Declare ::
  "'b amqp \<Rightarrow> 'b Session \<Rightarrow> 'b world \<Rightarrow> error option outcome \<times> 'b Session \<times> 'b world" where
  "Declare L s w =
     (case ensureConnections L s w of
        (Some err, s1, w1) \<Rightarrow> (Returns (Some err), s1, w1)
      | (None, s1, w1) \<Rightarrow>
          (case declare_for L Consumer (consumeConn s1) (consumerDecls s1) w1 of
             (Returns None, w2) \<Rightarrow>
               (case declare_for L Producer (produceConn s1) (producerDecls s1) w2 of
                  (res, w3) \<Rightarrow> (res, s1, w3))
           | (res, w2) \<Rightarrow> (res, s1, w2)))"



subsection \<open>Session: Shutdown and Consume\<close>

text \<open>\<^verbatim>\<open>Session.Shutdown\<close>; the deferred \<^verbatim>\<open>s.cancel()\<close> runs on every way out.\<close>

definition Session_Shutdown ::
  "'b amqp \<Rightarrow> 'b Session \<Rightarrow> 'b world \<Rightarrow> unit outcome \<times> 'b Session \<times> 'b world" where
  "Session_Shutdown L s w =
     (case
        (case consumeConn s of
           None \<Rightarrow> (Returns (), s, w)
         | Some c \<Rightarrow>
             (case Connection_Shutdown L c w of
                (Panics p, c1, w1) \<Rightarrow> (Panics p, s\<lparr>consumeConn := Some c1\<rparr>, w1)
              | (Returns u, c1, w1) \<Rightarrow>
                  (Returns (), s\<lparr>consumeConn := Some c1\<rparr>,
                   emit (Log Info ''amqp consumer connection closed'') w1)))
      of
        (Panics p, s1, w1) \<Rightarrow> (Panics p, s1\<lparr>session_cancelled := True\<rparr>, w1)
      | (Returns u, s1, w1) \<Rightarrow>
          (case produceConn s1 of
             None \<Rightarrow> (Returns (), s1\<lparr>session_cancelled := True\<rparr>, w1)
           | Some c \<Rightarrow>
               (case Connection_Shutdown L c w1 of
                  (Panics p, c1, w2) \<Rightarrow>
                    (Panics p, s1\<lparr>produceConn := Some c1, session_cancelled := True\<rparr>, w2)
                | (Returns u, c1, w2) \<Rightarrow>
                    (Returns (), s1\<lparr>produceConn := Some c1, session_cancelled := True\<rparr>,
                     emit (Log Info ''amqp producer connection closed'') w2))))"

text \<open>
  The body of \<^verbatim>\<open>for delivery := range deliveries\<close> in Consume, and the loop itself
  over the deliveries the feed yields until the broker closes it.
\<close>

definition deliver :: "'b amqp \<Rightarrow> 'b Session \<Rightarrow> Delivery \<Rightarrow> 'b world \<Rightarrow> 'b world" where
  "deliver L s delivery w =
     (let routingKey = RoutingKey delivery;
          w1 = emit (Log Info ''incoming amqp delivery'') w
      in case subscribers s routingKey of
           Some handler \<Rightarrow> handler delivery w1
         | None \<Rightarrow>
             snd (io (\<lambda>_. Nack delivery False False) (DeliveryNack L delivery False False)
                    (emit (Log Error ''delivery has routing key which cannot be processed, NACKing'') w1)))"

fun range_deliveries :: "'b amqp \<Rightarrow> 'b Session \<Rightarrow> Delivery list \<Rightarrow> 'b world \<Rightarrow> 'b world" where
  "range_deliveries L s [] w = w"
| "range_deliveries L s (delivery # deliveries) w =
     range_deliveries L s deliveries (deliver L s delivery w)"

text \<open>
  \<^verbatim>\<open>Session.Consume\<close>: the outer \<^verbatim>\<open>for\<close> runs until the context is done, so it is
  given a number of iterations; the result \<open>None\<close> says that it is still looping
  when they are used up. \<^verbatim>\<open>ch.Consume\<close> is always called with the Session's queue, an
  empty consumer tag and every flag false, and \<^verbatim>\<open>time.Sleep\<close> with five seconds.
\<close>

fun Consume :: "nat \<Rightarrow> 'b amqp \<Rightarrow> 'b Session \<Rightarrow> 'b world \<Rightarrow> unit outcome option \<times> 'b world" where
  "Consume 0 L s w = (None, w)"
| "Consume (Suc n) L s w =
     (if session_cancelled s then (Some (Returns ()), w)
      else
        (case consumeConn s of
           None \<Rightarrow> (Some (Panics NilPointerDereference), w)
         | Some c \<Rightarrow>
             (if \<not> IsConnected c then
                Consume n L s
                  (emit (Sleep 5) (emit (Log Info ''consuming halted: connection offline'') w))
              else
                (case Channel L c w of
                   (Panics p, w1) \<Rightarrow> (Some (Panics p), w1)
                 | (Returns (Inl err), w1) \<Rightarrow>
                     Consume n L s (emit (Log Error ''failed to fetch channel'') w1)
                 | (Returns (Inr ch), w1) \<Rightarrow>
                     (case io (\<lambda>_. Qos ch 10 0 False) (ChanQos L ch 10 0 False) w1 of
                        (ignored, w2) \<Rightarrow>
                          (case io (\<lambda>_. ConsumeFrom ch (consumerQueue s))
                                  (ChanConsume L ch (consumerQueue s)) w2 of
                             (Inl err, w3) \<Rightarrow>
                               Consume n L s (emit (Log Error ''consumer error'') w3)
                           | (Inr deliveries, w3) \<Rightarrow>
                               Consume n L s (range_deliveries L s deliveries w3)))))))"

subsection \<open>The life of a Connection\<close>

text \<open>
  One Connection is driven by one thread of its own: \<^verbatim>\<open>Connect\<close> (called once, by
  \<^verbatim>\<open>ensureConnections\<close>), then the goroutine \<^verbatim>\<open>monitorConnection\<close> that Connect
  starts, which calls \<^verbatim>\<open>reconnect\<close>. \<open>pc\<close> says where that thread stands:
  \<^item> \<open>NotStarted\<close>: Connect has not been called;
  \<^item> \<open>ConnectDialling\<close>: Connect is in \<^verbatim>\<open>dial\<close>, blocked in \<^verbatim>\<open>amqp.Dial\<close>;
  \<^item> \<open>ConnectFailed\<close>: Connect returned its error (no watchdog was started);
  \<^item> \<open>Monitoring\<close>: \<^verbatim>\<open>monitorConnection\<close> waits in its \<^verbatim>\<open>select\<close>;
  \<^item> \<open>ReconnectDialling\<close>: \<^verbatim>\<open>reconnect\<close> is in \<^verbatim>\<open>dial\<close>, blocked in \<^verbatim>\<open>amqp.Dial\<close>;
  \<^item> \<open>ReconnectSleeping\<close>: \<^verbatim>\<open>reconnect\<close> sleeps after a failed dial;
  \<^item> \<open>Stopped\<close>: \<^verbatim>\<open>monitorConnection\<close> has returned.
\<close>

datatype pc =
    NotStarted | ConnectDialling | ConnectFailed | Monitoring
  | ReconnectDialling | ReconnectSleeping | Stopped

text \<open>
  What can happen to a Connection: Connect is called; the pending \<^verbatim>\<open>amqp.Dial\<close>
  returns; the watchdog receives a close notification; the sleep of \<^verbatim>\<open>reconnect\<close>
  ends; the watchdog finds the context done; and, from any other thread at any time,
  the three statements of \<^verbatim>\<open>Connection.Shutdown\<close>.
\<close>

datatype happening =
    ConnectCalled | DialReturns | CloseNotified | SleepOver | ContextDoneSeen
  | ShutdownSetsFlag | ShutdownCancels | ShutdownCloses

record 'b lifecycle =
  pc :: pc
  con :: Connection
  wld :: "'b world"

text \<open>
  The top of the loop of \<^verbatim>\<open>reconnect\<close> up to the blocking call (\<open>None\<close>: the context
  is done and reconnect returns), and the loop's body from the return of
  \<^verbatim>\<open>amqp.Dial\<close> on (the flag says whether reconnect returns).
\<close>

definition reconnect_enter :: "Connection \<Rightarrow> Connection option" where
  "reconnect_enter c = (if cancelled c then None else Some (dial_begin c))"

definition reconnect_resume :: "'b amqp \<Rightarrow> Connection \<Rightarrow> 'b world \<Rightarrow> bool \<times> Connection \<times> 'b world" where
  "reconnect_resume L c w =
     (case dial_finish L c w of
        (Inl err, c1, w1) \<Rightarrow>
          (False, c1\<lparr>conn := None\<rparr>,
           emit (Sleep 5) (emit (Log Warn ''unable to connect to amqp server'') w1))
      | (Inr h, c1, w1) \<Rightarrow>
          (True, setConnected True (c1\<lparr>conn := Some h\<rparr>),
           emit (Log Info ''reconnected to amqp server'') w1))"

fun step :: "'b amqp \<Rightarrow> happening \<Rightarrow> 'b lifecycle \<Rightarrow> 'b lifecycle option" where
  "step L ConnectCalled st =
     (if pc st = NotStarted
      then Some (st\<lparr>pc := ConnectDialling, con := dial_begin (con st)\<rparr>)
      else None)"
| "step L DialReturns st =
     (if pc st = ConnectDialling then
        (case Connect_resume L (con st) (wld st) of
           (Some err, c, w) \<Rightarrow> Some \<lparr>pc = ConnectFailed, con = c, wld = w\<rparr>
         | (None, c, w) \<Rightarrow> Some \<lparr>pc = Monitoring, con = c, wld = w\<rparr>)
      else if pc st = ReconnectDialling then
        (case reconnect_resume L (con st) (wld st) of
           (True, c, w) \<Rightarrow> Some \<lparr>pc = Monitoring, con = c, wld = w\<rparr>
         | (False, c, w) \<Rightarrow> Some \<lparr>pc = ReconnectSleeping, con = c, wld = w\<rparr>)
      else None)"
| "step L CloseNotified st =
     (if pc st = Monitoring then
        (case reconnect_enter (con st) of
           None \<Rightarrow> Some (st\<lparr>wld := emit (Log Warn ''amqp connection error'') (wld st)\<rparr>)
         | Some c \<Rightarrow>
             Some \<lparr>pc = ReconnectDialling, con = c,
                   wld = emit (Log Warn ''amqp connection error'') (wld st)\<rparr>)
      else None)"
| "step L SleepOver st =
     (if pc st = ReconnectSleeping then
        (case reconnect_enter (con st) of
           None \<Rightarrow> Some (st\<lparr>pc := Monitoring\<rparr>)
         | Some c \<Rightarrow> Some (st\<lparr>pc := ReconnectDialling, con := c\<rparr>))
      else None)"
| "step L ContextDoneSeen st =
     (if pc st = Monitoring \<and> cancelled (con st) then Some (st\<lparr>pc := Stopped\<rparr>) else None)"
| "step L ShutdownSetsFlag st = Some (st\<lparr>con := setConnected False (con st)\<rparr>)"
| "step L ShutdownCancels st = Some (st\<lparr>con := cancel (con st)\<rparr>)"
| "step L ShutdownCloses st =
     (case Shutdown_close L (con st) (wld st) of
        (res, c, w) \<Rightarrow> Some (st\<lparr>con := c, wld := w\<rparr>))"

fun run :: "'b amqp \<Rightarrow> happening list \<Rightarrow> 'b lifecycle \<Rightarrow> 'b lifecycle option" where
  "run L [] st = Some st"
| "run L (e # es) st = (case step L e st of None \<Rightarrow> None | Some st' \<Rightarrow> run L es st')"

definition created :: "string \<Rightarrow> 'b world \<Rightarrow> 'b lifecycle" where
  "created a w = \<lparr>pc = NotStarted, con = NewConnection a, wld = w\<rparr>"

fun of_Shutdown :: "happening \<Rightarrow> bool" where
  "of_Shutdown ShutdownSetsFlag = True"
| "of_Shutdown ShutdownCancels = True"
| "of_Shutdown ShutdownCloses = True"
| "of_Shutdown e = False"

text \<open>
  Where the lifecycle thread stands with no connection in its hands, and the two
  invariants of the lifecycle: \<open>safe\<close> holds of every state a Connection reaches,
  \<open>steady\<close> of every state it reaches before any statement of Shutdown has run.
\<close>

definition offline :: "pc \<Rightarrow> bool" where
  "offline p = (p = NotStarted \<or> p = ConnectDialling \<or> p = ConnectFailed
                \<or> p = ReconnectDialling \<or> p = ReconnectSleeping)"

definition safe :: "'b lifecycle \<Rightarrow> bool" where
  "safe st = ((if offline (pc st) then \<not> connected (con st) else True)
              \<and> (if connected (con st) then conn (con st) \<noteq> None else True))"

definition steady :: "'b lifecycle \<Rightarrow> bool" where
  "steady st = (\<not> cancelled (con st) \<and> pc st \<noteq> Stopped
                \<and> (if pc st = Monitoring then connected (con st) else True))"

subsection \<open>Sample collaborators\<close>

text \<open>
  Concrete collaborators on which the theorems below are instantiated: a broker that
  accepts everything and hands out handles by counting, a handler that does nothing,
  and the world before any call.
\<close>

definition accepting_amqp :: "nat amqp" where
  "accepting_amqp =
     \<lparr>Dial = (\<lambda>a b. (Inr b, Suc b)),
      ConnClose = (\<lambda>h b. (case h of None \<Rightarrow> Panics LibraryPanic | Some _ \<Rightarrow> Returns None, b)),
      ConnChannel = (\<lambda>h b. (case h of None \<Rightarrow> Panics LibraryPanic | Some _ \<Rightarrow> Returns (Inr b), Suc b)),
      run_declaration = (\<lambda>d ch b. (None, b)),
      Marshal = (\<lambda>m. Inr (map of_char m)),
      ChanPublish = (\<lambda>ch e k m i p b. (None, b)),
      ChanQos = (\<lambda>ch n z g b. (None, b)),
      ChanConsume = (\<lambda>ch q b. (Inr [], b)),
      DeliveryNack = (\<lambda>d m r b. (None, b))\<rparr>"

definition idle_handler :: "nat Subscriber" where
  "idle_handler d w = w"

definition fresh_world :: "nat world" where
  "fresh_world = \<lparr>calls = [], broker = 0\<rparr>"

text \<open>
  A broker that fails one given Declaration and accepts the others, a broker that
  cannot be dialled, a handler that adds the delivery's tag to the broker state, and
  the Session after one subscription and one publisher have been registered.
\<close>

definition rejecting_amqp :: "Declaration \<Rightarrow> nat amqp" where
  "rejecting_amqp bad =
     accepting_amqp\<lparr>run_declaration :=
       (\<lambda>d ch b. (if d = bad then Some (LibraryError ''channel closed'') else None, b))\<rparr>"

definition unreachable_amqp :: "nat amqp" where
  "unreachable_amqp =
     accepting_amqp\<lparr>Dial := (\<lambda>a b. (Inl (LibraryError ''connection refused''), b))\<rparr>"

definition tallying_handler :: "nat Subscriber" where
  "tallying_handler d w = w\<lparr>broker := broker w + DeliveryTag d\<rparr>"

definition registered_session :: "nat Session" where
  "registered_session =
     snd (AddPublisher ''events'' ''user.created''
       (fst (snd (AddSubscription ''events'' ''q1'' ''user.created'' idle_handler
          (NewSession ''amqp://broker'') fresh_world))))"

section \<open>Properties\<close>

subsection \<open>Connection.Shutdown\<close>

text \<open>
  C1. The claim: a Connection that is connected when Shutdown is invoked has its
  transport handle closed by Shutdown. The code clears the flag first and tests it
  afterwards, so the test is false and \<^verbatim>\<open>c.conn.Close()\<close> is not reached: for every
  library, every connected Connection holding a handle \<open>h\<close> and every world,
  Shutdown returns having made no call at all, and the handle is still installed.
\<close>

theorem Shutdown_never_closes:
  "Connection_Shutdown L (c\<lparr>conn := Some h, connected := True\<rparr>) w =
     (Returns (), c\<lparr>conn := Some h, connected := False, cancelled := True\<rparr>, w)"
  by (simp add: Connection_Shutdown_def Shutdown_close_def IsConnected_def
      setConnected_def cancel_def)


subsection \<open>Registration\<close>

lemma AddSubscription_records_queue:
  "AddSubscription ex Q rk h s w = (None, s', w') \<Longrightarrow> consumerQueue s' = Q"
  by (auto simp: AddSubscription_def split: if_splits)

lemma AddSubscription_keeps_queue:
  "consumerQueue s \<noteq> '''' \<Longrightarrow> consumerQueue (fst (snd (AddSubscription ex Q rk h s w))) = consumerQueue s"
  by (simp add: AddSubscription_def)

lemma AddPublisher_keeps_queue:
  "consumerQueue (snd (AddPublisher ex rk s)) = consumerQueue s"
  by (simp add: AddPublisher_def split: option.splits)

text \<open>
  C4. The claim: once a subscription with queue name \<open>Q\<close> is registered, AddSubscription
  with any other queue name fails and changes nothing. The code tests
  \<^verbatim>\<open>s.consumerQueue != ""\<close> first: the empty name stands for "no queue yet", so a
  Session whose registered queue name is the empty string accepts a second, different
  name. As amended: on a Session whose recorded consumer queue name \<open>Q\<close> is not empty
  (the name a successful registration recorded, by \<open>AddSubscription_records_queue\<close>,
  and that no later call changes, by \<open>AddSubscription_keeps_queue\<close> and
  \<open>AddPublisher_keeps_queue\<close>), AddSubscription with a different name returns the
  error naming \<open>Q\<close>, and the Session and the world are the ones it was given.
\<close>

theorem AddSubscription_other_queue_rejected:
  assumes "consumerQueue s = Q" and "Q \<noteq> ''''" and "Q' \<noteq> Q"
  shows "AddSubscription ex Q' rk h s w = (Some (ConsumerQueueDefined Q), s, w)"
  using assms by (simp add: AddSubscription_def)

theorem AddSubscription_other_queue_rejected_witness:
  "consumerQueue (fst (snd (AddSubscription ''events'' ''q1'' ''user.created'' idle_handler
       (NewSession ''amqp://broker'') fresh_world))) = ''q1''
   \<and> AddSubscription ''events'' ''q2'' ''user.deleted'' idle_handler
       (fst (snd (AddSubscription ''events'' ''q1'' ''user.created'' idle_handler
          (NewSession ''amqp://broker'') fresh_world))) fresh_world
     = (Some (ConsumerQueueDefined ''q1''),
        fst (snd (AddSubscription ''events'' ''q1'' ''user.created'' idle_handler
          (NewSession ''amqp://broker'') fresh_world)), fresh_world)"
proof -
  let ?s = "fst (snd (AddSubscription ''events'' ''q1'' ''user.created'' idle_handler
       (NewSession ''amqp://broker'') fresh_world))"
  have q: "consumerQueue ?s = ''q1''"
    by (simp add: AddSubscription_def NewSession_def)
  have "AddSubscription ''events'' ''q2'' ''user.deleted'' idle_handler ?s fresh_world
          = (Some (ConsumerQueueDefined ''q1''), ?s, fresh_world)"
    using AddSubscription_other_queue_rejected [OF q, of "''q2''"] by simp
  with q show ?thesis by simp
qed

text \<open>
  The claim as stated fails when the first registration names the empty queue: the
  second registration, with the different name \<open>q2\<close>, returns nil and replaces the
  recorded queue name.
\<close>

theorem AddSubscription_after_empty_queue_accepted:
  "fst (AddSubscription ''events'' '''' ''user.created'' idle_handler
          (NewSession ''amqp://broker'') fresh_world) = None
   \<and> fst (AddSubscription ''events'' ''q2'' ''user.deleted'' idle_handler
       (fst (snd (AddSubscription ''events'' '''' ''user.created'' idle_handler
          (NewSession ''amqp://broker'') fresh_world))) fresh_world) = None
   \<and> consumerQueue (fst (snd (AddSubscription ''events'' ''q2'' ''user.deleted'' idle_handler
       (fst (snd (AddSubscription ''events'' '''' ''user.created'' idle_handler
          (NewSession ''amqp://broker'') fresh_world))) fresh_world))) = ''q2''"
  by (simp add: AddSubscription_def NewSession_def)

text \<open>
  C10. A second AddSubscription with the queue name already recorded and a routing key
  that already has a handler returns nil: the handler registered for the key is now
  the new one, the exchange, queue and binding declarations are appended once more,
  and nothing else of the Session changes. No error reports the duplicate key.
\<close>

theorem AddSubscription_same_key_replaces:
  assumes "consumerQueue s = Q" and "subscribers s rk = Some h1"
  shows "AddSubscription ex Q rk h2 s w =
           (None,
            s\<lparr>consumerDecls := consumerDecls s @ [AutoExchange ex, AutoQueue Q, AutoBinding rk Q ex],
              subscribers := (subscribers s)(rk \<mapsto> h2)\<rparr>,
            emit (Log Info ''added subscription'') w)"
  using assms by (simp add: AddSubscription_def)

theorem AddSubscription_same_key_replaces_witness:
  "(case AddSubscription ''events'' ''q1'' ''user.created'' idle_handler
          (NewSession ''amqp://broker'') fresh_world of
      (r1, s1, w1) \<Rightarrow>
        r1 = None \<and> subscribers s1 ''user.created'' = Some idle_handler
        \<and> consumerDecls s1 =
            [AutoExchange ''events'', AutoQueue ''q1'', AutoBinding ''user.created'' ''q1'' ''events'']
        \<and> (case AddSubscription ''events'' ''q1'' ''user.created'' (\<lambda>d. emit (Sleep 1)) s1 w1 of
             (r2, s2, w2) \<Rightarrow>
               r2 = None \<and> subscribers s2 ''user.created'' = Some (\<lambda>d. emit (Sleep 1))
               \<and> consumerDecls s2 =
                   [AutoExchange ''events'', AutoQueue ''q1'', AutoBinding ''user.created'' ''q1'' ''events'',
                    AutoExchange ''events'', AutoQueue ''q1'', AutoBinding ''user.created'' ''q1'' ''events'']))"
proof -
  let ?s1 = "fst (snd (AddSubscription ''events'' ''q1'' ''user.created'' idle_handler
       (NewSession ''amqp://broker'') fresh_world))"
  have q: "consumerQueue ?s1 = ''q1''"
    by (simp add: AddSubscription_def NewSession_def)
  have h: "subscribers ?s1 ''user.created'' = Some idle_handler"
    by (simp add: AddSubscription_def NewSession_def)
  show ?thesis
    using AddSubscription_same_key_replaces [OF q h, of "''events''" "\<lambda>d. emit (Sleep 1)" "emit (Log Info ''added subscription'') fresh_world"]
    by (simp add: AddSubscription_def NewSession_def)
qed

text \<open>
  C8. On a Session where routing key \<open>K\<close> is registered to a publisher, AddPublisher
  with \<open>K\<close> returns the error "a publisher with that routingKey is already
  registered" and the Session it leaves is the one it was given: the exchange recorded
  for \<open>K\<close> by the first call, and everything else, is unchanged.
\<close>

theorem AddPublisher_duplicate_rejected:
  assumes "publishers s K = Some ex"
  shows "AddPublisher ex' K s = (Some PublisherRegistered, s)
         \<and> publishers (snd (AddPublisher ex' K s)) K = Some ex"
  using assms by (simp add: AddPublisher_def)

theorem AddPublisher_duplicate_rejected_witness:
  "(case AddPublisher ''events'' ''user.created'' (NewSession ''amqp://broker'' :: nat Session) of
      (r1, s1) \<Rightarrow>
        r1 = None \<and> publishers s1 ''user.created'' = Some ''events''
        \<and> AddPublisher ''audit'' ''user.created'' s1 = (Some PublisherRegistered, s1)
        \<and> publishers (snd (AddPublisher ''audit'' ''user.created'' s1)) ''user.created'' = Some ''events'')"
proof -
  let ?s1 = "snd (AddPublisher ''events'' ''user.created'' (NewSession ''amqp://broker'' :: nat Session))"
  have p: "publishers ?s1 ''user.created'' = Some ''events''"
    by (simp add: AddPublisher_def NewSession_def)
  show ?thesis
    using AddPublisher_duplicate_rejected [OF p, of "''audit''"]
    by (simp add: AddPublisher_def NewSession_def)
qed

subsection \<open>Publish\<close>

text \<open>
  C5. When no publisher is registered for routing key \<open>K\<close>, Publish returns the
  routing error for \<open>K\<close> and the world it leaves is the world it was given: no channel
  was opened, nothing was published or logged, whatever the event and the library.
\<close>

theorem Publish_unregistered_key:
  assumes "publishers s K = None"
  shows "Publish L K event s w = (Returns (Some (NoPublisher K)), w)"
  using assms by (simp add: Publish_def)

theorem Publish_unregistered_key_witness:
  "publishers (NewSession ''amqp://broker'' :: nat Session) ''user.created'' = None
   \<and> Publish accepting_amqp ''user.created'' (ProtoMessage ''m'') (NewSession ''amqp://broker'') fresh_world
       = (Returns (Some (NoPublisher ''user.created'')), fresh_world)"
proof -
  have p: "publishers (NewSession ''amqp://broker'' :: nat Session) ''user.created'' = None"
    by (simp add: NewSession_def)
  show ?thesis
    using p Publish_unregistered_key [OF p, of accepting_amqp "ProtoMessage ''m''" fresh_world]
    by simp
qed

text \<open>
  C9. With a publisher registered for the routing key, an event that is not a
  protobuf message (the nil interface or a value of another type) makes Publish
  panic at the type assertion, before anything is serialized, any channel is opened
  or anything is published: the result is the panic, not an error, and the world is
  untouched.
\<close>

theorem Publish_non_proto_panics:
  assumes "publishers s K = Some ex" and "\<forall>m. event \<noteq> ProtoMessage m"
  shows "Publish L K event s w = (Panics InterfaceConversion, w)"
  using assms by (cases event) (simp_all add: Publish_def)

theorem Publish_non_proto_panics_witness:
  "publishers (snd (AddPublisher ''events'' ''user.created'' (NewSession ''amqp://broker'' :: nat Session)))
       ''user.created'' = Some ''events''
   \<and> (\<forall>m. OtherValue ''42'' \<noteq> ProtoMessage m)
   \<and> Publish accepting_amqp ''user.created'' (OtherValue ''42'')
       (snd (AddPublisher ''events'' ''user.created'' (NewSession ''amqp://broker''))) fresh_world
       = (Panics InterfaceConversion, fresh_world)"
proof -
  let ?s = "snd (AddPublisher ''events'' ''user.created'' (NewSession ''amqp://broker'' :: nat Session))"
  have p: "publishers ?s ''user.created'' = Some ''events''"
    by (simp add: AddPublisher_def NewSession_def)
  have n: "\<forall>m. OtherValue ''42'' \<noteq> ProtoMessage m" by simp
  show ?thesis
    using p n Publish_non_proto_panics [OF p n, of accepting_amqp fresh_world] by simp
qed

text \<open>
  C2. The claim: Publish with a registered publisher but no producer Connection
  returns an error. A publisher is registered by AddPublisher, and the producer
  Connection is created only by Declare; in between, \<^verbatim>\<open>s.produceConn\<close> is nil and
  Publish, after serializing the message, calls \<^verbatim>\<open>Channel\<close> on the nil Connection:
  a nil pointer dereference, not an error.
\<close>

theorem Publish_before_Declare_panics:
  "Publish accepting_amqp ''user.created'' (ProtoMessage ''m'')
     (snd (AddPublisher ''events'' ''user.created'' (NewSession ''amqp://broker''))) fresh_world
   = (Panics NilPointerDereference, fresh_world)"
  by (simp add: Publish_def AddPublisher_def NewSession_def accepting_amqp_def)



subsection \<open>Consume\<close>

lemma range_deliveries_append:
  "range_deliveries L s (xs @ ys) w = range_deliveries L s ys (range_deliveries L s xs w)"
  by (induction xs arbitrary: w) simp_all

lemma deliver_unroutable:
  assumes "subscribers s (RoutingKey d) = None"
  shows "deliver L s d w =
           \<lparr>calls = calls w @
              [Log Info ''incoming amqp delivery'',
               Log Error ''delivery has routing key which cannot be processed, NACKing'',
               Nack d False False],
            broker = snd (DeliveryNack L d False False (broker w))\<rparr>"
  using assms by (simp add: deliver_def io_def emit_def split: prod.splits)

text \<open>
  C6. Let \<open>d\<close> be a delivery of the feed whose routing key has no registered handler,
  \<open>earlier\<close> the deliveries before it and \<open>later\<close> the ones after it. When the loop
  reaches \<open>d\<close> it makes three calls and no other: the two log entries and
  \<^verbatim>\<open>delivery.Nack(false, false)\<close> (not multiple, no requeue), whose error it drops; no
  handler is applied to the world. The loop then goes on with \<open>later\<close> from the world
  the Nack left.
\<close>

theorem unroutable_delivery_nacked:
  assumes "subscribers s (RoutingKey d) = None"
  shows "range_deliveries L s (earlier @ d # later) w =
           range_deliveries L s later
             \<lparr>calls = calls (range_deliveries L s earlier w) @
                [Log Info ''incoming amqp delivery'',
                 Log Error ''delivery has routing key which cannot be processed, NACKing'',
                 Nack d False False],
              broker = snd (DeliveryNack L d False False (broker (range_deliveries L s earlier w)))\<rparr>"
  using assms by (simp add: range_deliveries_append deliver_unroutable)

theorem unroutable_delivery_nacked_witness:
  "subscribers ((NewSession ''amqp://broker'')\<lparr>subscribers := [''user.created'' \<mapsto> tallying_handler]\<rparr>)
       (RoutingKey \<lparr>RoutingKey = ''user.deleted'', DeliveryTag = 2, Payload = []\<rparr>) = None
   \<and> range_deliveries accepting_amqp
       ((NewSession ''amqp://broker'')\<lparr>subscribers := [''user.created'' \<mapsto> tallying_handler]\<rparr>)
       [\<lparr>RoutingKey = ''user.created'', DeliveryTag = 1, Payload = []\<rparr>,
        \<lparr>RoutingKey = ''user.deleted'', DeliveryTag = 2, Payload = []\<rparr>,
        \<lparr>RoutingKey = ''user.created'', DeliveryTag = 3, Payload = []\<rparr>] fresh_world
     = \<lparr>calls =
          [Log Info ''incoming amqp delivery'',
           Log Info ''incoming amqp delivery'',
           Log Error ''delivery has routing key which cannot be processed, NACKing'',
           Nack \<lparr>RoutingKey = ''user.deleted'', DeliveryTag = 2, Payload = []\<rparr> False False,
           Log Info ''incoming amqp delivery''],
        broker = 4\<rparr>"
proof -
  let ?s = "(NewSession ''amqp://broker'')\<lparr>subscribers := [''user.created'' \<mapsto> tallying_handler]\<rparr>"
  let ?d = "\<lparr>RoutingKey = ''user.deleted'', DeliveryTag = 2, Payload = []\<rparr>"
  have none: "subscribers ?s (RoutingKey ?d) = None"
    by (simp add: NewSession_def)
  show ?thesis
    using none
      unroutable_delivery_nacked [OF none, of accepting_amqp
        "[\<lparr>RoutingKey = ''user.created'', DeliveryTag = 1, Payload = []\<rparr>]"
        "[\<lparr>RoutingKey = ''user.created'', DeliveryTag = 3, Payload = []\<rparr>]" fresh_world]
    by (simp add: deliver_def emit_def tallying_handler_def accepting_amqp_def
        fresh_world_def NewSession_def)
qed

subsection \<open>Declare\<close>
















lemmas sample_defs =
  Declare_def ensureConnections_def declare_for_def Connect_def Connect_resume_def
  dial_begin_def dial_finish_def changeConnection_def setConnected_def Channel_def
  NewConnection_def io_def emit_def registered_session_def AddPublisher_def
  AddSubscription_def NewSession_def fresh_world_def accepting_amqp_def rejecting_amqp_def



text \<open>
  When the first connection cannot be dialled, Declare returns that error and calls no
  Declaration; the Connection it made stays in the Session.
\<close>

theorem Declare_without_connection_applies_nothing:
  "Declare unreachable_amqp registered_session fresh_world
     = (Returns (Some (CreateConnectionFailed (UnableToConnect (LibraryError ''connection refused'')))),
        registered_session\<lparr>consumeConn := Some (NewConnection ''amqp://broker'')\<rparr>,
        \<lparr>calls = [Dialled ''amqp://broker''], broker = 0\<rparr>)"
  by (simp add: sample_defs unreachable_amqp_def)

subsection \<open>The connected flag\<close>

lemma dial_finish_Inl:
  "dial_finish L c w = (Inl e, c', w') \<Longrightarrow> c' = c"
  by (auto simp: dial_finish_def changeConnection_def split: prod.splits sum.splits)

lemma dial_finish_Inr:
  "dial_finish L c w = (Inr h, c', w') \<Longrightarrow>
     connected c' \<and> conn c' = Some h \<and> cancelled c' = cancelled c"
  by (auto simp: dial_finish_def changeConnection_def setConnected_def split: prod.splits sum.splits)

lemma Connect_resume_failed:
  "Connect_resume L c w = (Some e, c', w') \<Longrightarrow>
     connected c' = connected c \<and> conn c' = None \<and> cancelled c' = cancelled c"
  by (auto simp: Connect_resume_def split: prod.splits sum.splits dest: dial_finish_Inl)

lemma Connect_resume_ok:
  "Connect_resume L c w = (None, c', w') \<Longrightarrow>
     connected c' \<and> conn c' \<noteq> None \<and> cancelled c' = cancelled c"
  by (auto simp: Connect_resume_def split: prod.splits sum.splits dest!: dial_finish_Inr)

lemma reconnect_resume_failed:
  "reconnect_resume L c w = (False, c', w') \<Longrightarrow>
     connected c' = connected c \<and> conn c' = None \<and> cancelled c' = cancelled c"
  by (auto simp: reconnect_resume_def split: prod.splits sum.splits dest: dial_finish_Inl)

lemma reconnect_resume_ok:
  "reconnect_resume L c w = (True, c', w') \<Longrightarrow>
     connected c' \<and> conn c' \<noteq> None \<and> cancelled c' = cancelled c"
  by (auto simp: reconnect_resume_def setConnected_def split: prod.splits sum.splits dest!: dial_finish_Inr)

lemma Shutdown_close_con: "Shutdown_close L c w = (r, c', w') \<Longrightarrow> c' = c"
  by (auto simp: Shutdown_close_def split: if_splits prod.splits outcome.splits option.splits)

lemma step_safe:
  assumes "safe st" and "step L e st = Some st'"
  shows "safe st'"
proof (cases e)
  case ConnectCalled
  with assms show ?thesis
    by (auto simp: safe_def offline_def dial_begin_def setConnected_def split: if_splits)
next
  case DialReturns
  with assms show ?thesis
    by (auto simp: safe_def offline_def split: if_splits prod.splits option.splits bool.splits
        dest!: Connect_resume_failed Connect_resume_ok reconnect_resume_failed reconnect_resume_ok)
next
  case CloseNotified
  with assms show ?thesis
    by (auto simp: safe_def offline_def reconnect_enter_def dial_begin_def setConnected_def
        split: if_splits option.splits)
next
  case SleepOver
  with assms show ?thesis
    by (auto simp: safe_def offline_def reconnect_enter_def dial_begin_def setConnected_def
        split: if_splits option.splits)
next
  case ContextDoneSeen
  with assms show ?thesis
    by (auto simp: safe_def offline_def split: if_splits)
next
  case ShutdownSetsFlag
  with assms show ?thesis by (auto simp: safe_def setConnected_def split: if_splits)
next
  case ShutdownCancels
  with assms show ?thesis by (auto simp: safe_def cancel_def split: if_splits)
next
  case ShutdownCloses
  with assms show ?thesis
    by (auto simp: safe_def split: if_splits prod.splits dest!: Shutdown_close_con)
qed

lemma run_safe: "safe st \<Longrightarrow> run L es st = Some st' \<Longrightarrow> safe st'"
proof (induction es arbitrary: st)
  case Nil
  then show ?case by simp
next
  case (Cons e es)
  then show ?case by (auto split: option.splits dest: step_safe)
qed

lemma step_steady:
  assumes "steady st" and "step L e st = Some st'" and "\<not> of_Shutdown e"
  shows "steady st'"
proof (cases e)
  case ConnectCalled
  with assms show ?thesis
    by (auto simp: steady_def dial_begin_def setConnected_def split: if_splits)
next
  case DialReturns
  with assms show ?thesis
    by (auto simp: steady_def split: if_splits prod.splits option.splits bool.splits
        dest!: Connect_resume_failed Connect_resume_ok reconnect_resume_failed reconnect_resume_ok)
next
  case CloseNotified
  with assms show ?thesis
    by (auto simp: steady_def reconnect_enter_def dial_begin_def setConnected_def
        split: if_splits option.splits)
next
  case SleepOver
  with assms show ?thesis
    by (auto simp: steady_def reconnect_enter_def dial_begin_def setConnected_def
        split: if_splits option.splits)
next
  case ContextDoneSeen
  with assms show ?thesis by (auto simp: steady_def split: if_splits)
qed (use assms in simp_all)

lemma run_steady:
  "steady st \<Longrightarrow> run L es st = Some st' \<Longrightarrow> list_all (\<lambda>e. \<not> of_Shutdown e) es \<Longrightarrow> steady st'"
proof (induction es arbitrary: st)
  case Nil
  then show ?case by simp
next
  case (Cons e es)
  then show ?case by (auto split: option.splits dest: step_steady)
qed

lemma created_safe: "safe (created a w)"
  by (simp add: safe_def created_def NewConnection_def offline_def)

lemma created_steady: "steady (created a w)"
  by (simp add: steady_def created_def NewConnection_def)

text \<open>
  C7. For every library and every sequence of happenings that a Connection made by
  NewConnection goes through (Connect, dial results, close notifications, the sleeps
  of reconnect, and the statements of Shutdown interleaved anywhere):
  \<^item> while a dial is in flight, IsConnected is false;
  \<^item> it is false as well before Connect, after a failed Connect and between two
    attempts of reconnect;
  \<^item> when it is true, a transport handle is installed;
  \<^item> and as long as no statement of Shutdown has run, IsConnected is true exactly when
    the watchdog is waiting, that is when the last dial succeeded and no close
    notification has been received since.
\<close>

theorem IsConnected_reflects_resolved_state:
  assumes "run L happenings (created a w) = Some st"
  shows "(pc st = ConnectDialling \<or> pc st = ReconnectDialling \<longrightarrow> \<not> IsConnected (con st))
       \<and> (pc st = NotStarted \<or> pc st = ConnectFailed \<or> pc st = ReconnectSleeping
            \<longrightarrow> \<not> IsConnected (con st))
       \<and> (IsConnected (con st) \<longrightarrow> conn (con st) \<noteq> None)
       \<and> (list_all (\<lambda>e. \<not> of_Shutdown e) happenings \<longrightarrow>
            IsConnected (con st) = (pc st = Monitoring))"
proof -
  from run_safe [OF created_safe assms] have s: "safe st" .
  have 1: "pc st = ConnectDialling \<or> pc st = ReconnectDialling \<longrightarrow> \<not> IsConnected (con st)"
    using s by (auto simp: safe_def offline_def IsConnected_def split: if_splits)
  have 2: "pc st = NotStarted \<or> pc st = ConnectFailed \<or> pc st = ReconnectSleeping
             \<longrightarrow> \<not> IsConnected (con st)"
    using s by (auto simp: safe_def offline_def IsConnected_def split: if_splits)
  have 3: "IsConnected (con st) \<longrightarrow> conn (con st) \<noteq> None"
    using s by (auto simp: safe_def IsConnected_def split: if_splits)
  have 4: "list_all (\<lambda>e. \<not> of_Shutdown e) happenings \<longrightarrow> IsConnected (con st) = (pc st = Monitoring)"
  proof
    assume "list_all (\<lambda>e. \<not> of_Shutdown e) happenings"
    from run_steady [OF created_steady assms this] have "steady st" .
    with s show "IsConnected (con st) = (pc st = Monitoring)"
      by (cases "pc st") (auto simp: steady_def safe_def offline_def IsConnected_def split: if_splits)
  qed
  from 1 2 3 4 show ?thesis by blast
qed

lemmas lifecycle_defs =
  created_def Connect_resume_def reconnect_enter_def dial_begin_def dial_finish_def
  changeConnection_def setConnected_def NewConnection_def io_def emit_def
  fresh_world_def accepting_amqp_def IsConnected_def

theorem IsConnected_reflects_resolved_state_witness:
  "(case run accepting_amqp [ConnectCalled] (created ''amqp://broker'' fresh_world) of
      None \<Rightarrow> False
    | Some st \<Rightarrow> pc st = ConnectDialling \<and> \<not> IsConnected (con st))
   \<and> (case run accepting_amqp [ConnectCalled, DialReturns] (created ''amqp://broker'' fresh_world) of
      None \<Rightarrow> False
    | Some st \<Rightarrow> pc st = Monitoring \<and> IsConnected (con st) \<and> conn (con st) \<noteq> None)
   \<and> (case run accepting_amqp [ConnectCalled, DialReturns, CloseNotified]
            (created ''amqp://broker'' fresh_world) of
      None \<Rightarrow> False
    | Some st \<Rightarrow> pc st = ReconnectDialling \<and> \<not> IsConnected (con st))"
proof -
  obtain st1 where r1: "run accepting_amqp [ConnectCalled] (created ''amqp://broker'' fresh_world) = Some st1"
    and p1: "pc st1 = ConnectDialling"
    by (simp add: created_def)
  obtain st2 where r2: "run accepting_amqp [ConnectCalled, DialReturns]
        (created ''amqp://broker'' fresh_world) = Some st2"
    and p2: "pc st2 = Monitoring"
    by (simp add: lifecycle_defs split: prod.splits)
  obtain st3 where r3: "run accepting_amqp [ConnectCalled, DialReturns, CloseNotified]
        (created ''amqp://broker'' fresh_world) = Some st3"
    and p3: "pc st3 = ReconnectDialling"
    by (simp add: lifecycle_defs split: prod.splits)
  from IsConnected_reflects_resolved_state [OF r1] p1
  have "\<not> IsConnected (con st1)" by simp
  moreover from IsConnected_reflects_resolved_state [OF r2] p2
  have "IsConnected (con st2) \<and> conn (con st2) \<noteq> None" by simp
  moreover from IsConnected_reflects_resolved_state [OF r3] p3
  have "\<not> IsConnected (con st3)" by simp
  ultimately show ?thesis using r1 r2 r3 p1 p2 p3 by simp
qed

text \<open>
  The two halves of \<open>dial\<close> and the statements of Shutdown put together again: the
  lifecycle's Connect is the function \<open>Connect\<close>, and the three statements of
  Shutdown in their order are \<open>Connection_Shutdown\<close>.
\<close>

lemma run_Connect:
  "run L [ConnectCalled, DialReturns] (created a w) =
     (case Connect L (NewConnection a) w of
        (Some err, c, w') \<Rightarrow> Some \<lparr>pc = ConnectFailed, con = c, wld = w'\<rparr>
      | (None, c, w') \<Rightarrow> Some \<lparr>pc = Monitoring, con = c, wld = w'\<rparr>)"
  by (simp add: created_def Connect_def split: prod.splits option.splits)

lemma run_Shutdown:
  "run L [ShutdownSetsFlag, ShutdownCancels, ShutdownCloses] st =
     (case Connection_Shutdown L (con st) (wld st) of
        (res, c, w) \<Rightarrow> Some (st\<lparr>con := c, wld := w\<rparr>))"
  by (simp add: Connection_Shutdown_def split: prod.splits)


end
